theory Spec2Isabelle
  imports Complex_Main
begin

section \<open>JavaScript values at the HTTP boundary\<close>

text \<open>
  The route handlers read dynamically typed values out of \<^verbatim>\<open>req.body\<close>,
  \<^verbatim>\<open>req.query\<close> and \<^verbatim>\<open>req.params\<close>. A value is what JSON can carry, plus
  \<^verbatim>\<open>undefined\<close>, which is what reading a property that is not there gives.
\<close>

datatype json =
    JUndefined
  | JNull
  | JBool bool
  | JNum rat
  | JStr string
  | JArr "json list"
  | JObj "(string \<times> json) list"

type_synonym obj = "(string \<times> json) list"

text \<open>
  \<^verbatim>\<open>!v\<close> is true exactly for the falsy values: \<^verbatim>\<open>undefined\<close>, \<^verbatim>\<open>null\<close>,
  \<^verbatim>\<open>false\<close>, \<^verbatim>\<open>0\<close> and the empty string. Every array and every object is
  truthy, the empty ones included.
\<close>

fun truthy :: "json \<Rightarrow> bool" where
  "truthy JUndefined = False"
| "truthy JNull = False"
| "truthy (JBool b) = b"
| "truthy (JNum n) = (n \<noteq> 0)"
| "truthy (JStr s) = (s \<noteq> [])"
| "truthy (JArr xs) = True"
| "truthy (JObj kvs) = True"

text \<open>Property access \<^verbatim>\<open>o.k\<close> (and destructuring \<^verbatim>\<open>const { k } = o\<close>) on an object.\<close>

definition property :: "obj \<Rightarrow> string \<Rightarrow> json" where
  "property ob k = (case map_of ob k of None \<Rightarrow> JUndefined | Some v \<Rightarrow> v)"

text \<open>
  A request as the handlers see it. \<^verbatim>\<open>req.body\<close> is the object the JSON body parser
  left there, \<^verbatim>\<open>req.query\<close> the parsed query string, \<^verbatim>\<open>req.params\<close> the path
  parameters, \<^verbatim>\<open>req.headers\<close> the lower-cased header table. \<open>now\<close> is what
  \<^verbatim>\<open>new Date().toISOString()\<close> gives while the request is handled.
\<close>

record request =
  body :: obj
  query :: obj
  params :: obj
  headers :: "string \<rightharpoonup> string"
  now :: string

text \<open>
  A response: \<^verbatim>\<open>res.json(v)\<close> answers with status 200, \<^verbatim>\<open>res.status(n).json(v)\<close>
  with status \<open>n\<close>.
\<close>

record response =
  status :: nat
  payload :: json

section \<open>The services behind the routes\<close>

text \<open>
  The error taxonomy. A value thrown by a service operation is described by the kind of
  failure it stands for and by the text \<^verbatim>\<open>String(error)\<close> renders for it.
\<close>

datatype error_kind =
    ValidationError
  | NotFound
  | Conflict
  | IntegrityViolation
  | AdapterError
  | InternalError

record thrown =
  kind :: error_kind
  text_of :: string

text \<open>
  The calls the routes make on the \<^verbatim>\<open>DomereService\<close> and \<^verbatim>\<open>MundService\<close>
  instances, with their arguments in the order of the source.
\<close>

datatype call =
    createThread json
  | listThreads json
  | getThread json
  | addHop json
  | closeThread json json
  | verifyThread json
  | analyzeIntent json
  | checkDrift json json json
  | compareIntents json json
  | detectLanguage json
  | analyzeContent json
  | checkInjection json
  | estimateAnchorCost json
  | prepareAnchor json json
  | submitAnchor json json
  | verifyAnchor json json json
  | getAnchorStatus json
  | scan json json
  | scanSecrets json
  | scanPII json
  | scanInjection json
  | scanExfiltration json
  | analyzeCode json json
  | getRules
  | addRule json
  | enableRule json
  | disableRule json
  | getStats

text \<open>
  A service answers a call in its current state: it either throws or returns a value, and
  leaves a new state behind. The routes are written against this interface only.
\<close>

type_synonym 'st service = "call \<Rightarrow> 'st \<Rightarrow> (thrown + json) \<times> 'st"

text \<open>
  What handling one request did: the response sent, the state the services are left in,
  and the service calls made, in order.
\<close>

record 'st outcome =
  res :: response
  final :: 'st
  invoked :: "call list"

text \<open>\<^verbatim>\<open>return res.status(400).json({ error: msg })\<close> before any service call.\<close>

definition reject :: "string \<Rightarrow> 'st \<Rightarrow> 'st outcome" where
  "reject msg s =
     \<lparr>res = \<lparr>status = 400, payload = JObj [(''error'', JStr msg)]\<rparr>, final = s, invoked = []\<rparr>"

text \<open>
  \<^verbatim>\<open>const result = await service.op(args); res.json(result);\<close> inside the handler's
  \<^verbatim>\<open>try\<close>, whose \<^verbatim>\<open>catch (error)\<close> answers
  \<^verbatim>\<open>res.status(500).json({ error: String(error) })\<close>.
\<close>

definition invoke :: "'st service \<Rightarrow> call \<Rightarrow> 'st \<Rightarrow> 'st outcome" where
  "invoke svc c s =
     (case svc c s of
        (Inr result, s') \<Rightarrow>
          \<lparr>res = \<lparr>status = 200, payload = result\<rparr>, final = s', invoked = [c]\<rparr>
      | (Inl error, s') \<Rightarrow>
          \<lparr>res = \<lparr>status = 500, payload = JObj [(''error'', JStr (text_of error))]\<rparr>,
           final = s', invoked = [c]\<rparr>)"

text \<open>A handler that answers \<^verbatim>\<open>res.json(v)\<close> without calling a service.\<close>

definition answer :: "json \<Rightarrow> 'st \<Rightarrow> 'st outcome" where
  "answer v s = \<lparr>res = \<lparr>status = 200, payload = v\<rparr>, final = s, invoked = []\<rparr>"

section \<open>Domere routes: thread management\<close>

text \<open>\<^verbatim>\<open>POST /api/v1/domere/threads\<close>\<close>

definition post_threads :: "'st service \<Rightarrow> request \<Rightarrow> 'st \<Rightarrow> 'st outcome" where
  "post_threads svc req s =
     (let origin_type = property (body req) ''origin_type'';
          origin_identity = property (body req) ''origin_identity'';
          intent = property (body req) ''intent'';
          constraints = property (body req) ''constraints'';
          metadata = property (body req) ''metadata''
      in
      if \<not> truthy origin_type \<or> \<not> truthy origin_identity \<or> \<not> truthy intent then
        reject ''origin_type, origin_identity, and intent are required'' s
      else
        invoke svc
          (createThread (JObj [(''origin_type'', origin_type),
                               (''origin_identity'', origin_identity),
                               (''intent'', intent),
                               (''constraints'', constraints),
                               (''metadata'', metadata)])) s)"

text \<open>
  \<^verbatim>\<open>GET /api/v1/domere/threads\<close>. The built-in \<^verbatim>\<open>parseInt\<close> is a parameter of
  the model.
\<close>

definition get_threads ::
  "(json \<Rightarrow> json) \<Rightarrow> 'st service \<Rightarrow> request \<Rightarrow> 'st \<Rightarrow> 'st outcome" where
  "get_threads parseInt svc req s =
     (let status = property (query req) ''status'';
          origin_identity = property (query req) ''origin_identity'';
          limit = property (query req) ''limit''
      in
      invoke svc
        (listThreads (JObj [(''status'', status),
                            (''origin_identity'', origin_identity),
                            (''limit'', if truthy limit then parseInt limit else JUndefined)])) s)"

text \<open>\<^verbatim>\<open>GET /api/v1/domere/threads/:id\<close>\<close>

definition get_threads_id :: "'st service \<Rightarrow> request \<Rightarrow> 'st \<Rightarrow> 'st outcome" where
  "get_threads_id svc req s = invoke svc (getThread (property (params req) ''id'')) s"

text \<open>\<^verbatim>\<open>POST /api/v1/domere/threads/:id/hops\<close>\<close>

definition post_threads_id_hops :: "'st service \<Rightarrow> request \<Rightarrow> 'st \<Rightarrow> 'st outcome" where
  "post_threads_id_hops svc req s =
     (let agent_id = property (body req) ''agent_id'';
          agent_type = property (body req) ''agent_type'';
          received_intent = property (body req) ''received_intent'';
          actions = property (body req) ''actions''
      in
      if \<not> truthy agent_id \<or> \<not> truthy agent_type \<or> \<not> truthy received_intent
         \<or> \<not> truthy actions then
        reject ''agent_id, agent_type, received_intent, and actions are required'' s
      else
        invoke svc
          (addHop (JObj [(''thread_id'', property (params req) ''id''),
                         (''agent_id'', agent_id),
                         (''agent_type'', agent_type),
                         (''received_intent'', received_intent),
                         (''actions'', actions)])) s)"

text \<open>\<^verbatim>\<open>POST /api/v1/domere/threads/:id/close\<close>\<close>

definition post_threads_id_close :: "'st service \<Rightarrow> request \<Rightarrow> 'st \<Rightarrow> 'st outcome" where
  "post_threads_id_close svc req s =
     (let outcome = property (body req) ''outcome'' in
      if \<not> truthy outcome then
        reject ''outcome is required (success, failure, abandoned)'' s
      else invoke svc (closeThread (property (params req) ''id'') outcome) s)"

text \<open>\<^verbatim>\<open>POST /api/v1/domere/threads/:id/verify\<close>\<close>

definition post_threads_id_verify :: "'st service \<Rightarrow> request \<Rightarrow> 'st \<Rightarrow> 'st outcome" where
  "post_threads_id_verify svc req s = invoke svc (verifyThread (property (params req) ''id'')) s"

section \<open>Domere routes: intent and drift\<close>

text \<open>\<^verbatim>\<open>POST /api/v1/domere/intent/analyze\<close>\<close>

definition post_intent_analyze :: "'st service \<Rightarrow> request \<Rightarrow> 'st \<Rightarrow> 'st outcome" where
  "post_intent_analyze svc req s =
     (let content = property (body req) ''content'' in
      if \<not> truthy content then reject ''content is required'' s
      else invoke svc (analyzeIntent content) s)"

text \<open>\<^verbatim>\<open>POST /api/v1/domere/drift/check\<close>\<close>

definition post_drift_check :: "'st service \<Rightarrow> request \<Rightarrow> 'st \<Rightarrow> 'st outcome" where
  "post_drift_check svc req s =
     (let original_intent = property (body req) ''original_intent'';
          current_intent = property (body req) ''current_intent'';
          constraints = property (body req) ''constraints''
      in
      if \<not> truthy original_intent \<or> \<not> truthy current_intent then
        reject ''original_intent and current_intent are required'' s
      else invoke svc (checkDrift original_intent current_intent constraints) s)"

text \<open>\<^verbatim>\<open>POST /api/v1/domere/intent/compare\<close>\<close>

definition post_intent_compare :: "'st service \<Rightarrow> request \<Rightarrow> 'st \<Rightarrow> 'st outcome" where
  "post_intent_compare svc req s =
     (let intent1 = property (body req) ''intent1'';
          intent2 = property (body req) ''intent2''
      in
      if \<not> truthy intent1 \<or> \<not> truthy intent2 then
        reject ''intent1 and intent2 are required'' s
      else invoke svc (compareIntents intent1 intent2) s)"

section \<open>Domere routes: language analysis\<close>

text \<open>\<^verbatim>\<open>POST /api/v1/domere/language/detect\<close>\<close>

definition post_language_detect :: "'st service \<Rightarrow> request \<Rightarrow> 'st \<Rightarrow> 'st outcome" where
  "post_language_detect svc req s =
     (let content = property (body req) ''content'' in
      if \<not> truthy content then reject ''content is required'' s
      else invoke svc (detectLanguage content) s)"

text \<open>\<^verbatim>\<open>POST /api/v1/domere/language/analyze\<close>\<close>

definition post_language_analyze :: "'st service \<Rightarrow> request \<Rightarrow> 'st \<Rightarrow> 'st outcome" where
  "post_language_analyze svc req s =
     (let content = property (body req) ''content'' in
      if \<not> truthy content then reject ''content is required'' s
      else invoke svc (analyzeContent content) s)"

text \<open>\<^verbatim>\<open>POST /api/v1/domere/injection/check\<close>\<close>

definition post_injection_check :: "'st service \<Rightarrow> request \<Rightarrow> 'st \<Rightarrow> 'st outcome" where
  "post_injection_check svc req s =
     (let content = property (body req) ''content'' in
      if \<not> truthy content then reject ''content is required'' s
      else invoke svc (checkInjection content) s)"

section \<open>Domere routes: blockchain anchoring\<close>

text \<open>\<^verbatim>\<open>GET /api/v1/domere/anchor/estimate\<close>\<close>

definition get_anchor_estimate :: "'st service \<Rightarrow> request \<Rightarrow> 'st \<Rightarrow> 'st outcome" where
  "get_anchor_estimate svc req s =
     (let network = property (query req) ''network'' in
      if \<not> truthy network then
        reject ''network query param is required (solana, ethereum)'' s
      else invoke svc (estimateAnchorCost network) s)"

text \<open>\<^verbatim>\<open>POST /api/v1/domere/anchor/prepare\<close>\<close>

definition post_anchor_prepare :: "'st service \<Rightarrow> request \<Rightarrow> 'st \<Rightarrow> 'st outcome" where
  "post_anchor_prepare svc req s =
     (let thread_id = property (body req) ''thread_id'';
          network = property (body req) ''network''
      in
      if \<not> truthy thread_id \<or> \<not> truthy network then
        reject ''thread_id and network are required'' s
      else invoke svc (prepareAnchor thread_id network) s)"

text \<open>\<^verbatim>\<open>POST /api/v1/domere/anchor/submit\<close>\<close>

definition post_anchor_submit :: "'st service \<Rightarrow> request \<Rightarrow> 'st \<Rightarrow> 'st outcome" where
  "post_anchor_submit svc req s =
     (let network = property (body req) ''network'';
          signed_transaction = property (body req) ''signed_transaction''
      in
      if \<not> truthy network \<or> \<not> truthy signed_transaction then
        reject ''network and signed_transaction are required'' s
      else invoke svc (submitAnchor network signed_transaction) s)"

text \<open>\<^verbatim>\<open>POST /api/v1/domere/anchor/verify\<close>\<close>

definition post_anchor_verify :: "'st service \<Rightarrow> request \<Rightarrow> 'st \<Rightarrow> 'st outcome" where
  "post_anchor_verify svc req s =
     (let network = property (body req) ''network'';
          thread_id = property (body req) ''thread_id'';
          merkle_root = property (body req) ''merkle_root''
      in
      if \<not> truthy network \<or> \<not> truthy thread_id \<or> \<not> truthy merkle_root then
        reject ''network, thread_id, and merkle_root are required'' s
      else invoke svc (verifyAnchor network thread_id merkle_root) s)"

text \<open>\<^verbatim>\<open>GET /api/v1/domere/anchor/:thread_id/status\<close>\<close>

definition get_anchor_thread_id_status :: "'st service \<Rightarrow> request \<Rightarrow> 'st \<Rightarrow> 'st outcome" where
  "get_anchor_thread_id_status svc req s =
     invoke svc (getAnchorStatus (property (params req) ''thread_id'')) s"

section \<open>Mund routes\<close>

text \<open>\<^verbatim>\<open>POST /api/v1/mund/scan\<close>\<close>

definition post_scan :: "'st service \<Rightarrow> request \<Rightarrow> 'st \<Rightarrow> 'st outcome" where
  "post_scan svc req s =
     (let content = property (body req) ''content'';
          scan_types = property (body req) ''scan_types''
      in
      if \<not> truthy content then reject ''content is required'' s
      else invoke svc (scan content scan_types) s)"

text \<open>\<^verbatim>\<open>POST /api/v1/mund/scan/secrets\<close>\<close>

definition post_scan_secrets :: "'st service \<Rightarrow> request \<Rightarrow> 'st \<Rightarrow> 'st outcome" where
  "post_scan_secrets svc req s =
     (let content = property (body req) ''content'' in
      if \<not> truthy content then reject ''content is required'' s
      else invoke svc (scanSecrets content) s)"

text \<open>\<^verbatim>\<open>POST /api/v1/mund/scan/pii\<close>\<close>

definition post_scan_pii :: "'st service \<Rightarrow> request \<Rightarrow> 'st \<Rightarrow> 'st outcome" where
  "post_scan_pii svc req s =
     (let content = property (body req) ''content'' in
      if \<not> truthy content then reject ''content is required'' s
      else invoke svc (scanPII content) s)"

text \<open>\<^verbatim>\<open>POST /api/v1/mund/scan/injection\<close>\<close>

definition post_scan_injection :: "'st service \<Rightarrow> request \<Rightarrow> 'st \<Rightarrow> 'st outcome" where
  "post_scan_injection svc req s =
     (let content = property (body req) ''content'' in
      if \<not> truthy content then reject ''content is required'' s
      else invoke svc (scanInjection content) s)"

text \<open>\<^verbatim>\<open>POST /api/v1/mund/scan/exfiltration\<close>\<close>

definition post_scan_exfiltration :: "'st service \<Rightarrow> request \<Rightarrow> 'st \<Rightarrow> 'st outcome" where
  "post_scan_exfiltration svc req s =
     (let content = property (body req) ''content'' in
      if \<not> truthy content then reject ''content is required'' s
      else invoke svc (scanExfiltration content) s)"

text \<open>\<^verbatim>\<open>POST /api/v1/mund/scan/code\<close>\<close>

definition post_scan_code :: "'st service \<Rightarrow> request \<Rightarrow> 'st \<Rightarrow> 'st outcome" where
  "post_scan_code svc req s =
     (let code = property (body req) ''code'';
          language = property (body req) ''language''
      in
      if \<not> truthy code then reject ''code is required'' s
      else invoke svc (analyzeCode code language) s)"

text \<open>\<^verbatim>\<open>GET /api/v1/mund/rules\<close>\<close>

definition get_rules :: "'st service \<Rightarrow> request \<Rightarrow> 'st \<Rightarrow> 'st outcome" where
  "get_rules svc req s = invoke svc getRules s"

text \<open>\<^verbatim>\<open>POST /api/v1/mund/rules\<close>: the whole body is the rule.\<close>

definition post_rules :: "'st service \<Rightarrow> request \<Rightarrow> 'st \<Rightarrow> 'st outcome" where
  "post_rules svc req s = (let rule = JObj (body req) in invoke svc (addRule rule) s)"

text \<open>\<^verbatim>\<open>PUT /api/v1/mund/rules/:id/enable\<close>\<close>

definition put_rules_id_enable :: "'st service \<Rightarrow> request \<Rightarrow> 'st \<Rightarrow> 'st outcome" where
  "put_rules_id_enable svc req s = invoke svc (enableRule (property (params req) ''id'')) s"

text \<open>\<^verbatim>\<open>PUT /api/v1/mund/rules/:id/disable\<close>\<close>

definition put_rules_id_disable :: "'st service \<Rightarrow> request \<Rightarrow> 'st \<Rightarrow> 'st outcome" where
  "put_rules_id_disable svc req s = invoke svc (disableRule (property (params req) ''id'')) s"

text \<open>\<^verbatim>\<open>GET /api/v1/mund/stats\<close>\<close>

definition get_stats :: "'st service \<Rightarrow> request \<Rightarrow> 'st \<Rightarrow> 'st outcome" where
  "get_stats svc req s = invoke svc getStats s"

section \<open>Health routes\<close>

text \<open>\<^verbatim>\<open>GET /\<close>, \<^verbatim>\<open>GET /ready\<close> and \<^verbatim>\<open>GET /live\<close>: no service call, no \<^verbatim>\<open>try\<close>.\<close>

definition get_health :: "request \<Rightarrow> 'st \<Rightarrow> 'st outcome" where
  "get_health req s =
     answer (JObj [(''status'', JStr ''healthy''),
                   (''timestamp'', JStr (now req)),
                   (''version'', JStr ''1.0.0''),
                   (''services'', JObj [(''mund'', JStr ''active''),
                                        (''hord'', JStr ''active''),
                                        (''domere'', JStr ''active'')])]) s"

definition get_health_ready :: "request \<Rightarrow> 'st \<Rightarrow> 'st outcome" where
  "get_health_ready req s = answer (JObj [(''ready'', JBool True)]) s"

definition get_health_live :: "request \<Rightarrow> 'st \<Rightarrow> 'st outcome" where
  "get_health_live req s = answer (JObj [(''live'', JBool True)]) s"

section \<open>The exposed surface\<close>

text \<open>Every route of the three routers, and the handler registered for it.\<close>

datatype endpoint =
    POST_threads
  | GET_threads
  | GET_threads_id
  | POST_threads_id_hops
  | POST_threads_id_close
  | POST_threads_id_verify
  | POST_intent_analyze
  | POST_drift_check
  | POST_intent_compare
  | POST_language_detect
  | POST_language_analyze
  | POST_injection_check
  | GET_anchor_estimate
  | POST_anchor_prepare
  | POST_anchor_submit
  | POST_anchor_verify
  | GET_anchor_thread_id_status
  | POST_scan
  | POST_scan_secrets
  | POST_scan_pii
  | POST_scan_injection
  | POST_scan_exfiltration
  | POST_scan_code
  | GET_rules
  | POST_rules
  | PUT_rules_id_enable
  | PUT_rules_id_disable
  | GET_stats
  | GET_health
  | GET_health_ready
  | GET_health_live

fun handle ::
  "(json \<Rightarrow> json) \<Rightarrow> endpoint \<Rightarrow> 'st service \<Rightarrow> request \<Rightarrow> 'st \<Rightarrow> 'st outcome" where
  "handle parseInt POST_threads svc req s = post_threads svc req s"
| "handle parseInt GET_threads svc req s = get_threads parseInt svc req s"
| "handle parseInt GET_threads_id svc req s = get_threads_id svc req s"
| "handle parseInt POST_threads_id_hops svc req s = post_threads_id_hops svc req s"
| "handle parseInt POST_threads_id_close svc req s = post_threads_id_close svc req s"
| "handle parseInt POST_threads_id_verify svc req s = post_threads_id_verify svc req s"
| "handle parseInt POST_intent_analyze svc req s = post_intent_analyze svc req s"
| "handle parseInt POST_drift_check svc req s = post_drift_check svc req s"
| "handle parseInt POST_intent_compare svc req s = post_intent_compare svc req s"
| "handle parseInt POST_language_detect svc req s = post_language_detect svc req s"
| "handle parseInt POST_language_analyze svc req s = post_language_analyze svc req s"
| "handle parseInt POST_injection_check svc req s = post_injection_check svc req s"
| "handle parseInt GET_anchor_estimate svc req s = get_anchor_estimate svc req s"
| "handle parseInt POST_anchor_prepare svc req s = post_anchor_prepare svc req s"
| "handle parseInt POST_anchor_submit svc req s = post_anchor_submit svc req s"
| "handle parseInt POST_anchor_verify svc req s = post_anchor_verify svc req s"
| "handle parseInt GET_anchor_thread_id_status svc req s = get_anchor_thread_id_status svc req s"
| "handle parseInt POST_scan svc req s = post_scan svc req s"
| "handle parseInt POST_scan_secrets svc req s = post_scan_secrets svc req s"
| "handle parseInt POST_scan_pii svc req s = post_scan_pii svc req s"
| "handle parseInt POST_scan_injection svc req s = post_scan_injection svc req s"
| "handle parseInt POST_scan_exfiltration svc req s = post_scan_exfiltration svc req s"
| "handle parseInt POST_scan_code svc req s = post_scan_code svc req s"
| "handle parseInt GET_rules svc req s = get_rules svc req s"
| "handle parseInt POST_rules svc req s = post_rules svc req s"
| "handle parseInt PUT_rules_id_enable svc req s = put_rules_id_enable svc req s"
| "handle parseInt PUT_rules_id_disable svc req s = put_rules_id_disable svc req s"
| "handle parseInt GET_stats svc req s = get_stats svc req s"
| "handle parseInt GET_health svc req s = get_health req s"
| "handle parseInt GET_health_ready svc req s = get_health_ready req s"
| "handle parseInt GET_health_live svc req s = get_health_live req s"

section \<open>API key middleware\<close>

text \<open>
  \<^verbatim>\<open>s.replace(pat, rep)\<close> with a string pattern: the first occurrence of \<open>pat\<close> in
  \<open>s\<close> is replaced, the rest is kept. (The replacement used below is the empty string,
  which has no \<^verbatim>\<open>$\<close> pattern in it.)
\<close>

fun replace :: "string \<Rightarrow> string \<Rightarrow> string \<Rightarrow> string" where
  "replace pat rep [] = (if pat = [] then rep else [])"
| "replace pat rep (c # cs) =
     (if take (length pat) (c # cs) = pat then rep @ drop (length pat) (c # cs)
      else c # replace pat rep cs)"

text \<open>\<^verbatim>\<open>a || b\<close> on header values: a string, or \<^verbatim>\<open>undefined\<close> (\<open>None\<close>).\<close>

definition or_else :: "string option \<Rightarrow> string option \<Rightarrow> string option" where
  "or_else a b = (case a of Some (c # cs) \<Rightarrow> a | _ \<Rightarrow> b)"

text \<open>The middleware either answers itself or calls \<^verbatim>\<open>next()\<close>.\<close>

datatype passage = Answered response | Next

text \<open>
  \<^verbatim>\<open>apiKeyAuth\<close>; \<open>env\<close> is \<^verbatim>\<open>process.env.WEAVE_API_KEY\<close>, \<open>None\<close> when the
  variable is not set.
\<close>

definition apiKeyAuth :: "string option \<Rightarrow> request \<Rightarrow> passage" where
  "apiKeyAuth env req =
     (let apiKey = or_else (headers req ''x-api-key'')
                     (map_option (replace ''Bearer '' []) (headers req ''authorization''))
      in
      if apiKey = None \<or> apiKey = Some [] then
        Answered \<lparr>status = 401, payload = JObj [(''error'', JStr ''API key required'')]\<rparr>
      else if apiKey \<noteq> env then
        Answered \<lparr>status = 403, payload = JObj [(''error'', JStr ''Invalid API key'')]\<rparr>
      else Next)"

section \<open>The error contract of the exposed surface, in the specification's words\<close>

text \<open>
  The status the specification assigns to each kind of failure: 400 validation, 404 not
  found, 409 conflict, 500 internal or adapter failure.
\<close>

fun expected_status :: "error_kind \<Rightarrow> nat" where
  "expected_status ValidationError = 400"
| "expected_status NotFound = 404"
| "expected_status Conflict = 409"
| "expected_status IntegrityViolation = 500"
| "expected_status AdapterError = 500"
| "expected_status InternalError = 500"

fun kind_name :: "error_kind \<Rightarrow> string" where
  "kind_name ValidationError = ''ValidationError''"
| "kind_name NotFound = ''NotFound''"
| "kind_name Conflict = ''Conflict''"
| "kind_name IntegrityViolation = ''IntegrityViolation''"
| "kind_name AdapterError = ''AdapterError''"
| "kind_name InternalError = ''InternalError''"

definition error_kinds :: "error_kind list" where
  "error_kinds =
     [ValidationError, NotFound, Conflict, IntegrityViolation, AdapterError, InternalError]"

text \<open>\<open>contains pat s\<close>: the string \<open>pat\<close> occurs somewhere in \<open>s\<close>.\<close>

fun contains :: "string \<Rightarrow> string \<Rightarrow> bool" where
  "contains pat [] = (pat = [])"
| "contains pat (c # cs) = (take (length pat) (c # cs) = pat \<or> contains pat cs)"

text \<open>
  A payload carries a machine-readable error kind when one of its fields is a string that
  names a kind of the taxonomy. This is the weakest reading: the name may even sit inside
  a longer text.
\<close>

definition carries_error_kind :: "json \<Rightarrow> bool" where
  "carries_error_kind v =
     (case v of
        JObj kvs \<Rightarrow>
          list_ex (\<lambda>(f, x). case x of
                     JStr w \<Rightarrow> list_ex (\<lambda>k. contains (kind_name k) w) error_kinds
                   | _ \<Rightarrow> False) kvs
      | _ \<Rightarrow> False)"

section \<open>Chain Engine and Thread Ledger\<close>

text \<open>
  The routes delegate to \<^verbatim>\<open>DomereService\<close> (\<^verbatim>\<open>services/domere.js\<close>). Its
  ledger and anchoring operations are modelled in this section and the next from the
  specification's data model and operation contracts.
\<close>

type_synonym digest = string

text \<open>
  Modelled from the spec: the hash function \<open>H\<close>, the canonical encoding of a hop's fields
  (sequence number, agent id, agent type, received intent, actions, timestamp) and the
  deployment's genesis hash, which the Chain Engine of \<^verbatim>\<open>services/domere.js\<close>
  fixes. They are parameters here.
\<close>

record chain =
  H :: "string \<Rightarrow> digest"
  canonical_encode :: "nat \<Rightarrow> string \<Rightarrow> string \<Rightarrow> string \<Rightarrow> string list \<Rightarrow> nat \<Rightarrow> string"
  genesis_hash :: digest

text \<open>
  Modelled from the spec: the Hop entity of the missing \<^verbatim>\<open>services/domere.js\<close>,
  with the fields of the data model.
\<close>

record hop =
  sequence_number :: nat
  agent_id :: string
  agent_type :: string
  received_intent :: string
  actions :: "string list"
  timestamp :: nat
  prev_hash :: digest
  hash :: digest

text \<open>
  Modelled from the spec: the status and outcome enumerations of a Thread in the missing
  \<^verbatim>\<open>services/domere.js\<close>.
\<close>

datatype thread_status = Open | Closed

datatype thread_outcome = success | failure | abandoned

text \<open>
  Modelled from the spec: the Thread entity of the missing \<^verbatim>\<open>services/domere.js\<close>.
  Anchor references belong to the anchoring side and are not kept here.
\<close>

record thread =
  thread_id :: nat
  origin_type :: string
  origin_identity :: string
  intent :: string
  constraints :: "string list"
  thread_state :: thread_status
  outcome_of :: "thread_outcome option"
  hops :: "hop list"
  head_hash :: digest
  created_at :: nat
  closed_at :: "nat option"

text \<open>
  Modelled from the spec: the Chain Engine's \<open>append\<close> of the missing
  \<^verbatim>\<open>services/domere.js\<close>: \<open>H(prev_hash || canonical_encode(fields))\<close>.
\<close>

definition chain_append ::
  "chain \<Rightarrow> digest \<Rightarrow> nat \<Rightarrow> string \<Rightarrow> string \<Rightarrow> string \<Rightarrow> string list \<Rightarrow> nat \<Rightarrow> digest" where
  "chain_append ch head n aid aty ri acts ts = H ch (head @ canonical_encode ch n aid aty ri acts ts)"

text \<open>
  Modelled from the spec: the result of verification in the missing
  \<^verbatim>\<open>services/domere.js\<close>, \<open>Valid\<close> or \<open>Broken\<close> at a sequence number.
\<close>

datatype verdict = Valid | Broken nat

text \<open>
  Modelled from the spec: the Chain Engine's \<open>verify\<close> of the missing
  \<^verbatim>\<open>services/domere.js\<close>. Starting from the genesis hash it recomputes each hop's
  hash and compares it with the stored hash, and the stored \<open>prev_hash\<close> with the hash
  before it; the first hop that diverges is reported by its position. Since the data model
  wants a head hash that differs from the recomputation surfaced by verification, the
  stored head is compared at the end, and reported at the position after the last hop.
\<close>

fun verify_from :: "chain \<Rightarrow> digest \<Rightarrow> nat \<Rightarrow> digest \<Rightarrow> hop list \<Rightarrow> verdict" where
  "verify_from ch prev i head [] = (if head = prev then Valid else Broken i)"
| "verify_from ch prev i head (h # hs) =
     (let recomputed =
            chain_append ch prev (sequence_number h) (agent_id h) (agent_type h)
              (received_intent h) (actions h) (timestamp h)
      in
      if prev_hash h \<noteq> prev \<or> hash h \<noteq> recomputed then Broken i
      else verify_from ch recomputed (Suc i) head hs)"

text \<open>
  Modelled from the spec: \<open>verify(thread)\<close> of the missing \<^verbatim>\<open>services/domere.js\<close>,
  the recomputation above run over the thread's hops from the genesis hash.
\<close>

definition verify :: "chain \<Rightarrow> thread \<Rightarrow> verdict" where
  "verify ch t = verify_from ch (genesis_hash ch) 0 (head_hash t) (hops t)"

text \<open>
  The chain invariant of the data model, in the specification's words. Link \<open>i\<close> of a
  chain is intact when the hop's \<open>prev_hash\<close> is the hash of the hop before it (the
  genesis hash for hop 0) and its stored hash is \<open>H\<close> of \<open>prev_hash\<close> followed by the
  canonical encoding of its fields. A thread's chain is intact when every link is, and
  the head hash is the hash of the last hop (the genesis hash if there is no hop).
\<close>

definition link_intact :: "chain \<Rightarrow> digest \<Rightarrow> hop list \<Rightarrow> nat \<Rightarrow> bool" where
  "link_intact ch genesis hs i =
     (prev_hash (hs ! i) = (if i = 0 then genesis else hash (hs ! (i - 1)))
      \<and> hash (hs ! i) =
          H ch (prev_hash (hs ! i) @
                canonical_encode ch (sequence_number (hs ! i)) (agent_id (hs ! i))
                  (agent_type (hs ! i)) (received_intent (hs ! i)) (actions (hs ! i))
                  (timestamp (hs ! i))))"

definition chain_intact :: "chain \<Rightarrow> thread \<Rightarrow> bool" where
  "chain_intact ch t =
     (list_all (link_intact ch (genesis_hash ch) (hops t)) [0..<length (hops t)]
      \<and> head_hash t = (if hops t = [] then genesis_hash ch else hash (last (hops t))))"

text \<open>
  Modelled from the spec: the Thread Ledger's store of the missing
  \<^verbatim>\<open>services/domere.js\<close>: threads by id, and the next id to hand out.
\<close>

record ledger =
  threads :: "nat \<rightharpoonup> thread"
  next_id :: nat

text \<open>
  Modelled from the spec: the failures of the ledger operations of the missing
  \<^verbatim>\<open>services/domere.js\<close>: a validation error for an empty required field,
  \<open>NotFound\<close> for an unknown thread, \<open>ThreadClosed\<close> and \<open>AlreadyClosed\<close>.
\<close>

datatype ledger_error = MissingField | UnknownThread | ThreadClosed | AlreadyClosed

text \<open>
  Modelled from the spec: \<open>create_thread\<close> of the missing \<^verbatim>\<open>services/domere.js\<close>.
  It fails with a validation error if origin type, origin identity or intent is empty;
  otherwise the new thread is open, has no hops, and its head is the genesis hash.
  \<open>clock\<close> is the time of the call.
\<close>

definition create_thread ::
  "chain \<Rightarrow> string \<Rightarrow> string \<Rightarrow> string \<Rightarrow> string list \<Rightarrow> nat \<Rightarrow> ledger
     \<Rightarrow> (ledger_error + thread) \<times> ledger" where
  "create_thread ch ot oi it cs clock L =
     (if ot = [] \<or> oi = [] \<or> it = [] then (Inl MissingField, L)
      else
        let t = \<lparr>thread_id = next_id L, origin_type = ot, origin_identity = oi, intent = it,
                 constraints = cs, thread_state = Open, outcome_of = None, hops = [],
                 head_hash = genesis_hash ch, created_at = clock, closed_at = None\<rparr>
        in (Inr t, L\<lparr>threads := (threads L)(next_id L \<mapsto> t), next_id := Suc (next_id L)\<rparr>))"

text \<open>
  Modelled from the spec: \<open>add_hop\<close> of the missing \<^verbatim>\<open>services/domere.js\<close>. It
  fails with \<open>NotFound\<close> if the thread is absent and with \<open>ThreadClosed\<close> if it is not
  open; otherwise the hop gets the next sequence number, the thread's head as
  \<open>prev_hash\<close> and the Chain Engine's hash, is appended, and becomes the head.
\<close>

definition add_hop ::
  "chain \<Rightarrow> nat \<Rightarrow> string \<Rightarrow> string \<Rightarrow> string \<Rightarrow> string list \<Rightarrow> nat \<Rightarrow> ledger
     \<Rightarrow> (ledger_error + hop) \<times> ledger" where
  "add_hop ch tid aid aty ri acts clock L =
     (case threads L tid of
        None \<Rightarrow> (Inl UnknownThread, L)
      | Some t \<Rightarrow>
          if thread_state t \<noteq> Open then (Inl ThreadClosed, L)
          else
            let n = length (hops t);
                h = \<lparr>sequence_number = n, agent_id = aid, agent_type = aty,
                     received_intent = ri, actions = acts, timestamp = clock,
                     prev_hash = head_hash t,
                     hash = chain_append ch (head_hash t) n aid aty ri acts clock\<rparr>;
                t' = t\<lparr>hops := hops t @ [h], head_hash := hash h\<rparr>
            in (Inr h, L\<lparr>threads := (threads L)(tid \<mapsto> t')\<rparr>))"

text \<open>
  Modelled from the spec: \<open>verify_thread\<close> of the missing \<^verbatim>\<open>services/domere.js\<close>:
  it delegates to the Chain Engine and is read-only.
\<close>

definition verify_thread :: "chain \<Rightarrow> nat \<Rightarrow> ledger \<Rightarrow> (ledger_error + verdict) \<times> ledger" where
  "verify_thread ch tid L =
     (case threads L tid of
        None \<Rightarrow> (Inl UnknownThread, L)
      | Some t \<Rightarrow> (Inr (verify ch t), L))"

text \<open>
  A hop request is what a caller of \<open>add_hop\<close> supplies, with the time at which the call
  is served: agent id, agent type, received intent, actions, clock.
\<close>

type_synonym hop_request = "string \<times> string \<times> string \<times> string list \<times> nat"

definition request_of :: "hop \<Rightarrow> hop_request" where
  "request_of h = (agent_id h, agent_type h, received_intent h, actions h, timestamp h)"

text \<open>
  A run of \<open>add_hop\<close> calls on one thread, one after the other, with nothing else touching
  the ledger in between. The results of the calls are kept in order.
\<close>

fun add_hops ::
  "chain \<Rightarrow> nat \<Rightarrow> hop_request list \<Rightarrow> ledger \<Rightarrow> (ledger_error + hop) list \<times> ledger" where
  "add_hops ch tid [] L = ([], L)"
| "add_hops ch tid ((aid, aty, ri, acts, clock) # rs) L =
     (case add_hop ch tid aid aty ri acts clock L of
        (r, L') \<Rightarrow> (case add_hops ch tid rs L' of (rs', L'') \<Rightarrow> (r # rs', L'')))"

section \<open>Anchor submission\<close>

text \<open>
  Modelled from the spec: the Network Adapter's \<open>submit\<close> capability, which the missing
  \<^verbatim>\<open>services/domere.js\<close> consumes. One interface for all networks, selected by
  the network name: given the network, the signed transaction and the state of the
  external ledger it either rejects with its native error detail or returns a
  transaction reference.
\<close>

type_synonym 'n adapter = "json \<Rightarrow> json \<Rightarrow> 'n \<Rightarrow> (string + json) \<times> 'n"

text \<open>
  The anchoring side's state: the external ledger, and a record of every invocation of
  the adapter's \<open>submit\<close> (network and transaction), in order.
\<close>

record 'n anchoring =
  external :: 'n
  submissions :: "(json \<times> json) list"

text \<open>
  Modelled from the spec: \<open>submit_anchor\<close> of the missing \<^verbatim>\<open>services/domere.js\<close>.
  The already signed transaction is forwarded to the Network Adapter; a rejection fails
  as an adapter error with the adapter's detail, without retry; otherwise the anchor is
  returned with status \<open>submitted\<close>.
\<close>

definition submit_anchor ::
  "'n adapter \<Rightarrow> json \<Rightarrow> json \<Rightarrow> 'n anchoring \<Rightarrow> (thrown + json) \<times> 'n anchoring" where
  "submit_anchor submit network signed_transaction s =
     (case submit network signed_transaction (external s) of
        (Inl detail, n') \<Rightarrow>
          (Inl \<lparr>kind = AdapterError, text_of = detail\<rparr>,
           \<lparr>external = n', submissions = submissions s @ [(network, signed_transaction)]\<rparr>)
      | (Inr tx_ref, n') \<Rightarrow>
          (Inr (JObj [(''network'', network), (''tx_ref'', tx_ref),
                      (''status'', JStr ''submitted'')]),
           \<lparr>external = n', submissions = submissions s @ [(network, signed_transaction)]\<rparr>))"

text \<open>
  A service whose \<open>submitAnchor\<close> is the operation above; every other call is answered by
  \<open>rest\<close>.
\<close>

definition anchoring_service ::
  "'n adapter \<Rightarrow> 'n anchoring service \<Rightarrow> 'n anchoring service" where
  "anchoring_service submit rest c s =
     (case c of
        submitAnchor network signed_transaction \<Rightarrow> submit_anchor submit network signed_transaction s
      | _ \<Rightarrow> rest c s)"

section \<open>Sample services and requests\<close>

text \<open>A service that returns \<^verbatim>\<open>null\<close> from every call.\<close>

definition quiet_service :: "unit service" where
  "quiet_service c s = (Inr JNull, s)"

text \<open>A service that finds no thread: every call throws a not-found failure.\<close>

definition absent_service :: "unit service" where
  "absent_service c s = (Inl \<lparr>kind = NotFound, text_of = ''Error: Thread not found''\<rparr>, s)"

text \<open>A service whose threads are all closed already: every call throws a conflict.\<close>

definition closed_service :: "unit service" where
  "closed_service c s = (Inl \<lparr>kind = Conflict, text_of = ''Error: Thread already closed''\<rparr>, s)"

text \<open>A request for thread \<open>t1\<close> with the given body and nothing else.\<close>

definition request_with :: "obj \<Rightarrow> request" where
  "request_with b =
     \<lparr>body = b, query = [], params = [(''id'', JStr ''t1'')], headers = Map.empty,
      now = ''2024-01-01T00:00:00.000Z''\<rparr>"

text \<open>A request with the given headers and nothing else.\<close>

definition request_from :: "(string \<rightharpoonup> string) \<Rightarrow> request" where
  "request_from hs =
     \<lparr>body = [], query = [], params = [], headers = hs, now = ''2024-01-01T00:00:00.000Z''\<rparr>"

text \<open>An adapter that rejects every transaction, and one that accepts every transaction.\<close>

definition rejecting_adapter :: "nat adapter" where
  "rejecting_adapter network tx n = (Inl ''malformed signature'', Suc n)"

definition accepting_adapter :: "nat adapter" where
  "accepting_adapter network tx n = (Inr (JStr ''tx-1''), Suc n)"

text \<open>An anchoring service that knows no operation but \<open>submitAnchor\<close>.\<close>

definition idle_rest :: "nat anchoring service" where
  "idle_rest c s = (Inr JNull, s)"

definition fresh_anchoring :: "nat anchoring" where
  "fresh_anchoring = \<lparr>external = 0, submissions = []\<rparr>"

text \<open>A toy chain: the digest is the hashed text itself, fields are joined by bars.\<close>

definition toy_chain :: chain where
  "toy_chain =
     \<lparr>H = (\<lambda>w. w),
      canonical_encode = (\<lambda>n aid aty ri acts ts. ''|'' @ aid @ ''|'' @ aty @ ''|'' @ ri),
      genesis_hash = ''genesis''\<rparr>"

definition empty_ledger :: ledger where
  "empty_ledger = \<lparr>threads = Map.empty, next_id = 0\<rparr>"

text \<open>A service that counts the calls it answers.\<close>

definition counting_service :: "nat service" where
  "counting_service c n = (Inr (JStr ''done''), Suc n)"

text \<open>
  A ledger whose only thread has one hop with a forged stored hash (and the head set to
  the forgery).
\<close>

definition forged_thread :: thread where
  "forged_thread =
     \<lparr>thread_id = 0, origin_type = ''human'', origin_identity = ''alice'',
      intent = ''summarize the document'', constraints = [], thread_state = Open,
      outcome_of = None,
      hops = [\<lparr>sequence_number = 0, agent_id = ''a1'', agent_type = ''llm'',
               received_intent = ''summarize'', actions = [''read''], timestamp = 5,
               prev_hash = ''genesis'', hash = ''forged''\<rparr>],
      head_hash = ''forged'', created_at = 1, closed_at = None\<rparr>"

definition forged_ledger :: ledger where
  "forged_ledger = \<lparr>threads = [0 \<mapsto> forged_thread], next_id = 1\<rparr>"

section \<open>Properties of the route handlers\<close>

lemma reject_simps:
  "status (res (reject m s)) = 400"
  "payload (res (reject m s)) = JObj [(''error'', JStr m)]"
  "invoked (reject m s) = []"
  "final (reject m s) = s"
  by (simp_all add: reject_def)

lemma answer_simps:
  "status (res (answer v s)) = 200"
  "invoked (answer v s) = []"
  "final (answer v s) = s"
  by (simp_all add: answer_def)

lemma invoke_Inl:
  "svc c s = (Inl e, s') \<Longrightarrow>
     invoke svc c s =
       \<lparr>res = \<lparr>status = 500, payload = JObj [(''error'', JStr (text_of e))]\<rparr>,
        final = s', invoked = [c]\<rparr>"
  by (simp add: invoke_def)

lemma invoke_Inr:
  "svc c s = (Inr v, s') \<Longrightarrow>
     invoke svc c s = \<lparr>res = \<lparr>status = 200, payload = v\<rparr>, final = s', invoked = [c]\<rparr>"
  by (simp add: invoke_def)

lemma invoke_invoked: "invoked (invoke svc c s) = [c]"
  by (simp add: invoke_def split: prod.split sum.split)


lemmas handler_defs =
  post_threads_def get_threads_def get_threads_id_def post_threads_id_hops_def
  post_threads_id_close_def post_threads_id_verify_def post_intent_analyze_def
  post_drift_check_def post_intent_compare_def post_language_detect_def
  post_language_analyze_def post_injection_check_def get_anchor_estimate_def
  post_anchor_prepare_def post_anchor_submit_def post_anchor_verify_def
  get_anchor_thread_id_status_def post_scan_def post_scan_secrets_def post_scan_pii_def
  post_scan_injection_def post_scan_exfiltration_def post_scan_code_def get_rules_def
  post_rules_def put_rules_id_enable_def put_rules_id_disable_def get_stats_def
  get_health_def get_health_ready_def get_health_live_def

text \<open>
  Every handler ends in one of three ways: the boundary's 400, the relayed result of one
  service call, or a fixed answer.
\<close>

lemma handle_cases:
  "(\<exists>m. handle P ep svc req s = reject m s)
   \<or> (\<exists>c. handle P ep svc req s = invoke svc c s)
   \<or> (\<exists>v. handle P ep svc req s = answer v s)"
  by (cases ep; simp add: handler_defs Let_def; blast)

lemma request_with_simps:
  "body (request_with b) = b"
  "property (params (request_with b)) ''id'' = JStr ''t1''"
  by (simp_all add: request_with_def property_def)

subsection \<open>Status codes\<close>

text \<open>
  The specification's status table fails on the handlers. A service that throws a not-found failure
  from \<open>getThread\<close> is answered with 500 where the specification's table has 404, and a
  service that throws a conflict from \<open>closeThread\<close> is answered with 500 where the table
  has 409.
\<close>

theorem service_failure_answered_500:
  "fst (absent_service (getThread (JStr ''t1'')) ()) =
     Inl \<lparr>kind = NotFound, text_of = ''Error: Thread not found''\<rparr>
   \<and> status (res (get_threads_id absent_service (request_with []) ())) = 500
   \<and> status (res (get_threads_id absent_service (request_with []) ())) \<noteq> expected_status NotFound
   \<and> fst (closed_service (closeThread (JStr ''t1'') (JStr ''success'')) ()) =
     Inl \<lparr>kind = Conflict, text_of = ''Error: Thread already closed''\<rparr>
   \<and> status (res (post_threads_id_close closed_service
        (request_with [(''outcome'', JStr ''success'')]) ())) = 500
   \<and> status (res (post_threads_id_close closed_service
        (request_with [(''outcome'', JStr ''success'')]) ())) \<noteq> expected_status Conflict"
  by (simp add: get_threads_id_def post_threads_id_close_def invoke_def absent_service_def
      closed_service_def request_with_def property_def Let_def)

text \<open>
  C1, as the handlers have it. For every route, every service and every request the
  status is 200, 400 or 500, so 404 and 409 are never sent. A 400 comes from the
  boundary's required-field check alone: no service call was made and the state is
  untouched. A 500 is sent exactly when the one service call made throws, whatever the
  kind of the failure, not-found and conflict included.
\<close>

theorem error_status_400_or_500:
  "status (res (handle P ep svc req s)) \<in> {200, 400, 500}
   \<and> (status (res (handle P ep svc req s)) = 400 \<longrightarrow>
        invoked (handle P ep svc req s) = [] \<and> final (handle P ep svc req s) = s)
   \<and> (status (res (handle P ep svc req s)) = 500 \<longleftrightarrow>
        (\<exists>c e s'. invoked (handle P ep svc req s) = [c] \<and> svc c s = (Inl e, s')))"
proof -
  consider (rej) m where "handle P ep svc req s = reject m s"
    | (inv) c where "handle P ep svc req s = invoke svc c s"
    | (ans) v where "handle P ep svc req s = answer v s"
    using handle_cases [of P ep svc req s] by blast
  then show ?thesis
  proof cases
    case rej
    then show ?thesis by (simp add: reject_simps)
  next
    case inv
    obtain r s' where r: "svc c s = (r, s')" by (cases "svc c s")
    show ?thesis
    proof (cases r)
      case (Inl e)
      with r inv show ?thesis by (simp add: invoke_Inl)
    next
      case (Inr v)
      with r inv show ?thesis by (simp add: invoke_Inr)
    qed
  next
    case ans
    then show ?thesis by (simp add: answer_simps)
  qed
qed

text \<open>
  An instance: closing a thread the service reports as closed already is answered 500
  after one call that threw; closing without an outcome is answered 400 with no call.
\<close>

theorem error_status_400_or_500_witness:
  "status (res (handle id POST_threads_id_close closed_service
       (request_with [(''outcome'', JStr ''success'')]) ())) = 500
   \<and> (\<exists>c e s'. invoked (handle id POST_threads_id_close closed_service
                   (request_with [(''outcome'', JStr ''success'')]) ()) = [c]
        \<and> closed_service c () = (Inl e, s'))
   \<and> status (res (handle id POST_threads_id_close closed_service (request_with []) ())) = 400
   \<and> invoked (handle id POST_threads_id_close closed_service (request_with []) ()) = []"
proof -
  have a: "status (res (handle id POST_threads_id_close closed_service
             (request_with [(''outcome'', JStr ''success'')]) ())) = 500"
    by (simp add: post_threads_id_close_def invoke_def closed_service_def request_with_def
        property_def Let_def)
  have b: "status (res (handle id POST_threads_id_close closed_service (request_with []) ())) = 400"
    by (simp add: post_threads_id_close_def reject_def request_with_def property_def Let_def)
  show ?thesis
    using a b
      error_status_400_or_500 [of id POST_threads_id_close closed_service
        "request_with [(''outcome'', JStr ''success'')]" "()"]
      error_status_400_or_500 [of id POST_threads_id_close closed_service "request_with []" "()"]
    by blast
qed

subsection \<open>Error payloads\<close>

text \<open>
  A machine-readable kind is not what the handlers send. The scan route's answer to a request without
  content is the object whose only field is \<open>error\<close>, holding the message; no field of
  it names a kind of the taxonomy.
\<close>

theorem error_payload_without_kind:
  "status (res (post_scan quiet_service (request_with []) ())) = 400
   \<and> payload (res (post_scan quiet_service (request_with []) ())) =
       JObj [(''error'', JStr ''content is required'')]
   \<and> \<not> carries_error_kind (payload (res (post_scan quiet_service (request_with []) ())))"
  by (simp add: post_scan_def reject_def request_with_def property_def Let_def
      carries_error_kind_def error_kinds_def)

text \<open>
  C4, as the handlers have it. For every route, every service and every request, a
  response whose status is not 200 has as payload an object with the single field
  \<open>error\<close>, a message string and nothing beside it; when the status is 500 the message
  is the text of what the service call threw.
\<close>

theorem error_payload_shape:
  "status (res (handle P ep svc req s)) \<noteq> 200 \<longrightarrow>
     (\<exists>m. payload (res (handle P ep svc req s)) = JObj [(''error'', JStr m)]
        \<and> (status (res (handle P ep svc req s)) = 500 \<longrightarrow>
             (\<exists>c e s'. invoked (handle P ep svc req s) = [c] \<and> svc c s = (Inl e, s')
                \<and> m = text_of e)))"
proof -
  consider (rej) m where "handle P ep svc req s = reject m s"
    | (inv) c where "handle P ep svc req s = invoke svc c s"
    | (ans) v where "handle P ep svc req s = answer v s"
    using handle_cases [of P ep svc req s] by blast
  then show ?thesis
  proof cases
    case rej
    then show ?thesis by (simp add: reject_simps)
  next
    case inv
    obtain r s' where r: "svc c s = (r, s')" by (cases "svc c s")
    show ?thesis
    proof (cases r)
      case (Inl e)
      with r inv show ?thesis by (simp add: invoke_Inl)
    next
      case (Inr v)
      with r inv show ?thesis by (simp add: invoke_Inr)
    qed
  next
    case ans
    then show ?thesis by (simp add: answer_simps)
  qed
qed

text \<open>An instance: the answer to reading a thread that the service does not find.\<close>

theorem error_payload_shape_witness:
  "status (res (handle id GET_threads_id absent_service (request_with []) ())) \<noteq> 200
   \<and> (\<exists>m. payload (res (handle id GET_threads_id absent_service (request_with []) ())) =
            JObj [(''error'', JStr m)])"
proof -
  have a: "status (res (handle id GET_threads_id absent_service (request_with []) ())) \<noteq> 200"
    by (simp add: get_threads_id_def invoke_def absent_service_def)
  show ?thesis
    using a error_payload_shape [of id GET_threads_id absent_service "request_with []" "()"]
    by blast
qed

subsection \<open>Required fields\<close>

text \<open>
  C3. Creating a thread is refused with status 400 whenever origin type, origin identity
  or intent is missing (\<^verbatim>\<open>undefined\<close>, or \<^verbatim>\<open>null\<close>) or the empty string; the
  service's thread creation is then not called and the state is untouched. When all three
  are non-empty strings, the request is forwarded: the handler is one call of
  \<open>createThread\<close> with the five fields of the body, relayed.
\<close>

theorem create_thread_required_fields:
  "((property (body req) ''origin_type'' \<in> {JUndefined, JNull, JStr []}
      \<or> property (body req) ''origin_identity'' \<in> {JUndefined, JNull, JStr []}
      \<or> property (body req) ''intent'' \<in> {JUndefined, JNull, JStr []}) \<longrightarrow>
        status (res (post_threads svc req s)) = 400
        \<and> invoked (post_threads svc req s) = []
        \<and> final (post_threads svc req s) = s)
   \<and> (property (body req) ''origin_type'' = JStr a \<and> a \<noteq> []
        \<and> property (body req) ''origin_identity'' = JStr b \<and> b \<noteq> []
        \<and> property (body req) ''intent'' = JStr c \<and> c \<noteq> [] \<longrightarrow>
        post_threads svc req s =
          invoke svc
            (createThread (JObj [(''origin_type'', JStr a),
                                 (''origin_identity'', JStr b),
                                 (''intent'', JStr c),
                                 (''constraints'', property (body req) ''constraints''),
                                 (''metadata'', property (body req) ''metadata'')])) s
        \<and> invoked (post_threads svc req s) =
            [createThread (JObj [(''origin_type'', JStr a),
                                 (''origin_identity'', JStr b),
                                 (''intent'', JStr c),
                                 (''constraints'', property (body req) ''constraints''),
                                 (''metadata'', property (body req) ''metadata'')])])"
  by (auto simp: post_threads_def Let_def reject_simps invoke_invoked)

text \<open>
  Two instances: a body with an empty intent is refused, a body with the three fields is
  forwarded.
\<close>

theorem create_thread_required_fields_witness:
  "status (res (post_threads quiet_service
       (request_with [(''origin_type'', JStr ''human''), (''origin_identity'', JStr ''alice''),
                      (''intent'', JStr [])]) ())) = 400
   \<and> invoked (post_threads quiet_service
       (request_with [(''origin_type'', JStr ''human''), (''origin_identity'', JStr ''alice''),
                      (''intent'', JStr [])]) ()) = []
   \<and> invoked (post_threads quiet_service
       (request_with [(''origin_type'', JStr ''human''), (''origin_identity'', JStr ''alice''),
                      (''intent'', JStr ''summarize the document'')]) ()) =
       [createThread (JObj [(''origin_type'', JStr ''human''),
                            (''origin_identity'', JStr ''alice''),
                            (''intent'', JStr ''summarize the document''),
                            (''constraints'', JUndefined),
                            (''metadata'', JUndefined)])]"
proof -
  let ?bad = "request_with [(''origin_type'', JStr ''human''), (''origin_identity'', JStr ''alice''),
                            (''intent'', JStr [])]"
  let ?good = "request_with [(''origin_type'', JStr ''human''), (''origin_identity'', JStr ''alice''),
                             (''intent'', JStr ''summarize the document'')]"
  have bad: "property (body ?bad) ''intent'' \<in> {JUndefined, JNull, JStr []}"
    by (simp add: request_with_def property_def)
  have good:
    "property (body ?good) ''origin_type'' = JStr ''human''" "''human'' \<noteq> []"
    "property (body ?good) ''origin_identity'' = JStr ''alice''" "''alice'' \<noteq> []"
    "property (body ?good) ''intent'' = JStr ''summarize the document''"
    "''summarize the document'' \<noteq> []"
    "property (body ?good) ''constraints'' = JUndefined"
    "property (body ?good) ''metadata'' = JUndefined"
    by (simp_all add: request_with_def property_def)
  have 1: "status (res (post_threads quiet_service ?bad ())) = 400
           \<and> invoked (post_threads quiet_service ?bad ()) = []"
    using bad create_thread_required_fields [where req = ?bad and svc = quiet_service and s = "()"]
    by blast
  have 2: "invoked (post_threads quiet_service ?good ()) =
             [createThread (JObj [(''origin_type'', JStr ''human''),
                                  (''origin_identity'', JStr ''alice''),
                                  (''intent'', JStr ''summarize the document''),
                                  (''constraints'', property (body ?good) ''constraints''),
                                  (''metadata'', property (body ?good) ''metadata'')])]"
    using good(1-6)
      create_thread_required_fields [where req = ?good and svc = quiet_service and s = "()"
        and a = "''human''" and b = "''alice''" and c = "''summarize the document''"]
    by blast
  show ?thesis
    using 1 2 by (simp only: good(7,8) simp_thms)
qed




text \<open>
  C10. The close route puts no restriction on \<open>outcome\<close> beyond its being there: for any
  non-empty string, inside the enumeration success, failure, abandoned or not, the
  handler is the relayed call of the service's \<open>closeThread\<close> with the path's id and
  exactly that string. The service is applied to that call in the state at hand: the
  state left behind is the one the service leaves, the response is the service's result
  with status 200, or 500 with the text of what it threw, and the answer is never the
  boundary's 400.
\<close>

theorem close_forwards_any_outcome:
  "w \<noteq> [] \<Longrightarrow> property (body req) ''outcome'' = JStr w \<Longrightarrow>
     invoked (post_threads_id_close svc req s) = [closeThread (property (params req) ''id'') (JStr w)]
     \<and> status (res (post_threads_id_close svc req s)) \<noteq> 400
     \<and> post_threads_id_close svc req s =
         invoke svc (closeThread (property (params req) ''id'') (JStr w)) s
     \<and> final (post_threads_id_close svc req s) =
         snd (svc (closeThread (property (params req) ''id'') (JStr w)) s)
     \<and> res (post_threads_id_close svc req s) =
         (case fst (svc (closeThread (property (params req) ''id'') (JStr w)) s) of
            Inr result \<Rightarrow> \<lparr>status = 200, payload = result\<rparr>
          | Inl error \<Rightarrow> \<lparr>status = 500, payload = JObj [(''error'', JStr (text_of error))]\<rparr>)"
proof -
  assume w: "w \<noteq> []" and o: "property (body req) ''outcome'' = JStr w"
  let ?c = "closeThread (property (params req) ''id'') (JStr w)"
  have e: "post_threads_id_close svc req s = invoke svc ?c s"
    using w o by (simp add: post_threads_id_close_def Let_def)
  obtain r s' where r: "svc ?c s = (r, s')" by (cases "svc ?c s")
  show ?thesis
  proof (cases r)
    case (Inl err)
    with r show ?thesis unfolding e by (simp add: invoke_Inl)
  next
    case (Inr v)
    with r show ?thesis unfolding e by (simp add: invoke_Inr)
  qed
qed

text \<open>
  An instance with an outcome outside the enumeration, on a service that counts its
  calls: the call is made once, the count goes from 0 to 1, and the service's result is
  relayed.
\<close>

theorem close_forwards_any_outcome_witness:
  "''banana'' \<noteq> []
   \<and> property (body (request_with [(''outcome'', JStr ''banana'')])) ''outcome'' = JStr ''banana''
   \<and> invoked (post_threads_id_close counting_service
         (request_with [(''outcome'', JStr ''banana'')]) 0)
       = [closeThread (JStr ''t1'') (JStr ''banana'')]
   \<and> final (post_threads_id_close counting_service
         (request_with [(''outcome'', JStr ''banana'')]) 0) = 1
   \<and> res (post_threads_id_close counting_service
         (request_with [(''outcome'', JStr ''banana'')]) 0) =
       \<lparr>status = 200, payload = JStr ''done''\<rparr>"
proof -
  let ?req = "request_with [(''outcome'', JStr ''banana'')]"
  have h1: "''banana'' \<noteq> []" by simp
  have h2: "property (body ?req) ''outcome'' = JStr ''banana''"
    by (simp add: request_with_def property_def)
  have c: "counting_service (closeThread (JStr ''t1'') (JStr ''banana'')) 0 =
             (Inr (JStr ''done''), 1)"
    by (simp add: counting_service_def)
  have 1: "invoked (post_threads_id_close counting_service ?req 0) =
             [closeThread (property (params ?req) ''id'') (JStr ''banana'')]"
    and 2: "final (post_threads_id_close counting_service ?req 0) =
             snd (counting_service (closeThread (property (params ?req) ''id'') (JStr ''banana'')) 0)"
    and 3: "res (post_threads_id_close counting_service ?req 0) =
             (case fst (counting_service
                          (closeThread (property (params ?req) ''id'') (JStr ''banana'')) 0) of
                Inr result \<Rightarrow> \<lparr>status = 200, payload = result\<rparr>
              | Inl error \<Rightarrow> \<lparr>status = 500, payload = JObj [(''error'', JStr (text_of error))]\<rparr>)"
    using close_forwards_any_outcome [OF h1 h2, of counting_service 0] by blast+
  show ?thesis
    using h1 h2 1 2 3 by (simp add: request_with_simps c)
qed

section \<open>Properties of the API key middleware\<close>

lemma replace_Bearer: "replace ''Bearer '' [] (''Bearer '' @ k) = k"
  by simp

text \<open>
  C8. With \<^verbatim>\<open>WEAVE_API_KEY\<close> unset the middleware lets no request through:
  \<^verbatim>\<open>next()\<close> is never called. A request with neither header is answered 401; a
  request with a non-empty \<^verbatim>\<open>x-api-key\<close>, or with no such header (or an empty one)
  and an \<^verbatim>\<open>authorization\<close> header made of \<^verbatim>\<open>Bearer\<close>, a space and a non-empty key, is
  answered 403.
\<close>

theorem apiKeyAuth_unset_key:
  "apiKeyAuth None req \<noteq> Next
   \<and> (headers req ''x-api-key'' = None \<and> headers req ''authorization'' = None \<longrightarrow>
        apiKeyAuth None req =
          Answered \<lparr>status = 401, payload = JObj [(''error'', JStr ''API key required'')]\<rparr>)
   \<and> (headers req ''x-api-key'' = Some k \<and> k \<noteq> [] \<longrightarrow>
        apiKeyAuth None req =
          Answered \<lparr>status = 403, payload = JObj [(''error'', JStr ''Invalid API key'')]\<rparr>)
   \<and> (headers req ''x-api-key'' \<in> {None, Some []}
        \<and> headers req ''authorization'' = Some (''Bearer '' @ k) \<and> k \<noteq> [] \<longrightarrow>
        apiKeyAuth None req =
          Answered \<lparr>status = 403, payload = JObj [(''error'', JStr ''Invalid API key'')]\<rparr>)"
  by (auto simp: apiKeyAuth_def or_else_def Let_def split: option.splits list.splits)

text \<open>Three instances: no header, an \<^verbatim>\<open>x-api-key\<close> header, a bearer header.\<close>

theorem apiKeyAuth_unset_key_witness:
  "apiKeyAuth None (request_from Map.empty) =
     Answered \<lparr>status = 401, payload = JObj [(''error'', JStr ''API key required'')]\<rparr>
   \<and> apiKeyAuth None (request_from [''x-api-key'' \<mapsto> ''secret'']) =
     Answered \<lparr>status = 403, payload = JObj [(''error'', JStr ''Invalid API key'')]\<rparr>
   \<and> apiKeyAuth None (request_from [''authorization'' \<mapsto> ''Bearer secret'']) =
     Answered \<lparr>status = 403, payload = JObj [(''error'', JStr ''Invalid API key'')]\<rparr>"
proof -
  have a: "headers (request_from Map.empty) ''x-api-key'' = None
           \<and> headers (request_from Map.empty) ''authorization'' = None"
    by (simp add: request_from_def)
  have b: "headers (request_from [''x-api-key'' \<mapsto> ''secret'']) ''x-api-key'' = Some ''secret''
           \<and> ''secret'' \<noteq> []"
    by (simp add: request_from_def)
  have c: "headers (request_from [''authorization'' \<mapsto> ''Bearer secret'']) ''x-api-key''
               \<in> {None, Some []}
           \<and> headers (request_from [''authorization'' \<mapsto> ''Bearer secret'']) ''authorization''
               = Some (''Bearer '' @ ''secret'')
           \<and> ''secret'' \<noteq> []"
    by (simp add: request_from_def)
  show ?thesis
    using a b c
      apiKeyAuth_unset_key [where req = "request_from Map.empty"]
      apiKeyAuth_unset_key [where req = "request_from [''x-api-key'' \<mapsto> ''secret'']"
        and k = "''secret''"]
      apiKeyAuth_unset_key [where req = "request_from [''authorization'' \<mapsto> ''Bearer secret'']"
        and k = "''secret''"]
    by blast
qed

section \<open>Properties of anchor submission\<close>

text \<open>
  C5. Through the submit route, with the service's \<open>submitAnchor\<close> as specified, the
  signed transaction reaches the adapter's \<open>submit\<close> exactly once per request that
  passes the boundary. The route makes the one service call \<open>submitAnchor\<close>; the external
  ledger is left in the state that one application of the adapter's \<open>submit\<close> to the
  request's network and transaction leaves, whether the adapter accepts or rejects, and
  the record of submissions grows by exactly that network and transaction. On rejection
  the operation fails as an adapter error with the adapter's detail, the route answers
  500 with that detail, and the adapter is not applied again; on acceptance the anchor is
  answered with status \<open>submitted\<close>. A request refused by the boundary reaches the
  adapter not at all.
\<close>

theorem submit_anchor_forwards_once:
  "(truthy (property (body req) ''network'')
      \<and> truthy (property (body req) ''signed_transaction'') \<longrightarrow>
        submissions (final (post_anchor_submit (anchoring_service submit rest) req s)) =
          submissions s @
            [(property (body req) ''network'', property (body req) ''signed_transaction'')]
        \<and> external (final (post_anchor_submit (anchoring_service submit rest) req s)) =
            snd (submit (property (body req) ''network'')
                   (property (body req) ''signed_transaction'') (external s))
        \<and> invoked (post_anchor_submit (anchoring_service submit rest) req s) =
            [submitAnchor (property (body req) ''network'')
               (property (body req) ''signed_transaction'')]
        \<and> res (post_anchor_submit (anchoring_service submit rest) req s) =
            (case fst (submit (property (body req) ''network'')
                        (property (body req) ''signed_transaction'') (external s)) of
               Inl detail \<Rightarrow> \<lparr>status = 500, payload = JObj [(''error'', JStr detail)]\<rparr>
             | Inr tx_ref \<Rightarrow>
                 \<lparr>status = 200,
                  payload = JObj [(''network'', property (body req) ''network''),
                                  (''tx_ref'', tx_ref), (''status'', JStr ''submitted'')]\<rparr>))
   \<and> (truthy (property (body req) ''network'')
        \<and> truthy (property (body req) ''signed_transaction'')
        \<and> fst (submit (property (body req) ''network'')
                  (property (body req) ''signed_transaction'') (external s)) = Inl detail \<longrightarrow>
        res (post_anchor_submit (anchoring_service submit rest) req s) =
          \<lparr>status = 500, payload = JObj [(''error'', JStr detail)]\<rparr>
        \<and> fst (submit_anchor submit (property (body req) ''network'')
                 (property (body req) ''signed_transaction'') s) =
            Inl \<lparr>kind = AdapterError, text_of = detail\<rparr>
        \<and> snd (submit_anchor submit (property (body req) ''network'')
                 (property (body req) ''signed_transaction'') s) =
            \<lparr>external = snd (submit (property (body req) ''network'')
                               (property (body req) ''signed_transaction'') (external s)),
             submissions = submissions s @
               [(property (body req) ''network'', property (body req) ''signed_transaction'')]\<rparr>)
   \<and> (\<not> truthy (property (body req) ''network'')
        \<or> \<not> truthy (property (body req) ''signed_transaction'') \<longrightarrow>
        status (res (post_anchor_submit (anchoring_service submit rest) req s)) = 400
        \<and> final (post_anchor_submit (anchoring_service submit rest) req s) = s)"
  by (auto simp: post_anchor_submit_def Let_def reject_simps invoke_def anchoring_service_def
      submit_anchor_def split: prod.splits sum.splits)

text \<open>
  An instance: an adapter that rejects every transaction, and counts the transactions it
  is given, has seen one transaction after the request, and the route answers 500 with
  the adapter's detail.
\<close>

theorem submit_anchor_forwards_once_witness:
  "submissions (final (post_anchor_submit (anchoring_service rejecting_adapter idle_rest)
       (request_with [(''network'', JStr ''solana''), (''signed_transaction'', JStr ''0xbad'')])
       fresh_anchoring)) = [(JStr ''solana'', JStr ''0xbad'')]
   \<and> external (final (post_anchor_submit (anchoring_service rejecting_adapter idle_rest)
       (request_with [(''network'', JStr ''solana''), (''signed_transaction'', JStr ''0xbad'')])
       fresh_anchoring)) = 1
   \<and> res (post_anchor_submit (anchoring_service rejecting_adapter idle_rest)
       (request_with [(''network'', JStr ''solana''), (''signed_transaction'', JStr ''0xbad'')])
       fresh_anchoring) =
       \<lparr>status = 500, payload = JObj [(''error'', JStr ''malformed signature'')]\<rparr>"
proof -
  let ?req = "request_with [(''network'', JStr ''solana''), (''signed_transaction'', JStr ''0xbad'')]"
  have n: "property (body ?req) ''network'' = JStr ''solana''"
    and t: "property (body ?req) ''signed_transaction'' = JStr ''0xbad''"
    by (simp_all add: request_with_def property_def)
  have h: "truthy (property (body ?req) ''network'')"
    "truthy (property (body ?req) ''signed_transaction'')"
    "fst (rejecting_adapter (property (body ?req) ''network'')
            (property (body ?req) ''signed_transaction'') (external fresh_anchoring)) =
       Inl ''malformed signature''"
    by (simp_all add: n t rejecting_adapter_def)
  have e: "submissions fresh_anchoring = []"
    by (simp add: fresh_anchoring_def)
  have x: "snd (rejecting_adapter (JStr ''solana'') (JStr ''0xbad'') (external fresh_anchoring)) = 1"
    by (simp add: rejecting_adapter_def fresh_anchoring_def)
  have 1: "submissions (final (post_anchor_submit (anchoring_service rejecting_adapter idle_rest)
              ?req fresh_anchoring)) =
             submissions fresh_anchoring @
               [(property (body ?req) ''network'', property (body ?req) ''signed_transaction'')]"
    and 2: "res (post_anchor_submit (anchoring_service rejecting_adapter idle_rest) ?req
              fresh_anchoring) =
             \<lparr>status = 500, payload = JObj [(''error'', JStr ''malformed signature'')]\<rparr>"
    and 3: "external (final (post_anchor_submit (anchoring_service rejecting_adapter idle_rest)
              ?req fresh_anchoring)) =
             snd (rejecting_adapter (property (body ?req) ''network'')
                    (property (body ?req) ''signed_transaction'') (external fresh_anchoring))"
    using h
      submit_anchor_forwards_once [where req = ?req and submit = rejecting_adapter
        and rest = idle_rest and s = fresh_anchoring and detail = "''malformed signature''"]
    by blast+
  show ?thesis
    using 1 2 3 by (simp only: n t e x append_Nil simp_thms)
qed

section \<open>Properties of the hash chain\<close>

text \<open>
  Appending a well-formed hop to a chain that verifies gives a chain that verifies, with
  the new hop's hash as head.
\<close>

lemma verify_from_snoc:
  "verify_from ch prev i p hs = Valid \<Longrightarrow> prev_hash h = p \<Longrightarrow>
   hash h = chain_append ch p (sequence_number h) (agent_id h) (agent_type h)
              (received_intent h) (actions h) (timestamp h) \<Longrightarrow>
   verify_from ch prev i (hash h) (hs @ [h]) = Valid"
proof (induction hs arbitrary: prev i)
  case Nil
  then show ?case by (simp split: if_splits)
next
  case (Cons x xs)
  then show ?case by (simp add: Let_def split: if_splits)
qed

lemma add_hop_valid:
  assumes "threads L tid = Some t" "thread_state t = Open" "verify ch t = Valid"
  shows "\<exists>h t'. add_hop ch tid aid aty ri acts clock L =
                   (Inr h, L\<lparr>threads := (threads L)(tid \<mapsto> t')\<rparr>)
           \<and> thread_state t' = Open \<and> verify ch t' = Valid
           \<and> map request_of (hops t') = map request_of (hops t) @ [(aid, aty, ri, acts, clock)]"
proof -
  let ?h = "\<lparr>sequence_number = length (hops t), agent_id = aid, agent_type = aty,
             received_intent = ri, actions = acts, timestamp = clock,
             prev_hash = head_hash t,
             hash = chain_append ch (head_hash t) (length (hops t)) aid aty ri acts clock\<rparr>"
  let ?t' = "t\<lparr>hops := hops t @ [?h], head_hash := hash ?h\<rparr>"
  have 1: "add_hop ch tid aid aty ri acts clock L =
             (Inr ?h, L\<lparr>threads := (threads L)(tid \<mapsto> ?t')\<rparr>)"
    using assms(1,2) by (simp add: add_hop_def Let_def)
  have "verify_from ch (genesis_hash ch) 0 (head_hash t) (hops t) = Valid"
    using assms(3) by (simp add: verify_def)
  then have "verify_from ch (genesis_hash ch) 0 (hash ?h) (hops t @ [?h]) = Valid"
    by (rule verify_from_snoc) simp_all
  then have 2: "verify ch ?t' = Valid" by (simp add: verify_def)
  have 3: "thread_state ?t' = Open" using assms(2) by simp
  have 4: "map request_of (hops ?t') = map request_of (hops t) @ [(aid, aty, ri, acts, clock)]"
    by (simp add: request_of_def)
  from 1 2 3 4 show ?thesis by blast
qed

lemma add_hops_valid:
  "threads L tid = Some t \<Longrightarrow> thread_state t = Open \<Longrightarrow> verify ch t = Valid \<Longrightarrow>
   \<exists>t'. threads (snd (add_hops ch tid rs L)) tid = Some t' \<and> thread_state t' = Open
        \<and> verify ch t' = Valid
        \<and> map request_of (hops t') = map request_of (hops t) @ rs
        \<and> length (fst (add_hops ch tid rs L)) = length rs
        \<and> list_all (\<lambda>r. \<not> isl r) (fst (add_hops ch tid rs L))"
proof (induction rs arbitrary: L t)
  case Nil
  then show ?case by simp
next
  case (Cons r rs)
  obtain aid aty ri acts clock where r: "r = (aid, aty, ri, acts, clock)" by (cases r)
  from add_hop_valid [OF Cons.prems, of aid aty ri acts clock]
  obtain h t1 where
    a: "add_hop ch tid aid aty ri acts clock L = (Inr h, L\<lparr>threads := (threads L)(tid \<mapsto> t1)\<rparr>)"
    and o: "thread_state t1 = Open" and v: "verify ch t1 = Valid"
    and m: "map request_of (hops t1) = map request_of (hops t) @ [(aid, aty, ri, acts, clock)]"
    by blast
  let ?L1 = "L\<lparr>threads := (threads L)(tid \<mapsto> t1)\<rparr>"
  have l: "threads ?L1 tid = Some t1" by simp
  from Cons.IH [OF l o v] obtain t' where t':
    "threads (snd (add_hops ch tid rs ?L1)) tid = Some t'" "thread_state t' = Open"
    "verify ch t' = Valid" "map request_of (hops t') = map request_of (hops t1) @ rs"
    "length (fst (add_hops ch tid rs ?L1)) = length rs"
    "list_all (\<lambda>r. \<not> isl r) (fst (add_hops ch tid rs ?L1))"
    by blast
  have e: "add_hops ch tid (r # rs) L =
             (Inr h # fst (add_hops ch tid rs ?L1), snd (add_hops ch tid rs ?L1))"
    using a r by (simp split: prod.splits)
  show ?case
    unfolding e using t' m r by simp
qed

text \<open>
  What verification checks: it answers \<open>Valid\<close> exactly when every link is intact from
  the starting hash on and the head is the hash of the last hop.
\<close>

lemma verify_from_intact:
  "(verify_from ch prev i head hs = Valid) =
     ((\<forall>j<length hs. link_intact ch prev hs j)
      \<and> head = (if hs = [] then prev else hash (last hs)))"
proof (induction hs arbitrary: prev i)
  case Nil
  then show ?case by auto
next
  case (Cons h hs)
  have shift: "\<And>j. j < length hs \<Longrightarrow>
      link_intact ch prev (h # hs) (Suc j) = link_intact ch (hash h) hs j"
    by (auto simp: link_intact_def nth_Cons')
  have split: "(\<forall>j<length (h # hs). link_intact ch prev (h # hs) j) =
      (link_intact ch prev (h # hs) 0 \<and> (\<forall>j<length hs. link_intact ch (hash h) hs j))"
    using shift by (auto simp: less_Suc_eq_0_disj)
  have zero: "link_intact ch prev (h # hs) 0 =
      (prev_hash h = prev \<and> hash h = chain_append ch prev (sequence_number h) (agent_id h)
         (agent_type h) (received_intent h) (actions h) (timestamp h))"
    by (auto simp: link_intact_def chain_append_def)
  show ?case
    unfolding split zero using Cons.IH [of "hash h" "Suc i"]
    by (auto simp: Let_def)
qed

lemma verify_intact: "(verify ch t = Valid) = chain_intact ch t"
  by (auto simp: verify_def chain_intact_def verify_from_intact list_all_iff)

text \<open>
  C2. On any ledger, create a thread (the three required fields being non-empty) and
  append any sequence of hops to it with \<open>add_hop\<close>, nothing else touching the ledger in
  between. Then the thread is created, every \<open>add_hop\<close> succeeds, the thread holds exactly
  the hops that were requested, in order, and \<open>verify_thread\<close> on it returns \<open>Valid\<close>.
  What \<open>verify_thread\<close> decides is the recomputation: on every ledger and every thread
  stored there it answers \<open>Valid\<close> exactly when each hop's stored hash equals the hash
  recomputed from its \<open>prev_hash\<close> and fields, each \<open>prev_hash\<close> is the hash before it
  starting at the genesis hash, and the head is the last hash; so the thread built here
  has all these links. Verification has no side effect: \<open>verify_thread\<close> hands back the
  ledger it was given, for this and for every other ledger and id.
\<close>

theorem fresh_thread_verifies:
  assumes "ot \<noteq> []" "oi \<noteq> []" "it \<noteq> []"
  shows "\<exists>t L1 t'.
           create_thread ch ot oi it cs clock L = (Inr t, L1)
           \<and> list_all (\<lambda>r. \<not> isl r) (fst (add_hops ch (thread_id t) rs L1))
           \<and> threads (snd (add_hops ch (thread_id t) rs L1)) (thread_id t) = Some t'
           \<and> map request_of (hops t') = rs
           \<and> verify_thread ch (thread_id t) (snd (add_hops ch (thread_id t) rs L1)) =
               (Inr Valid, snd (add_hops ch (thread_id t) rs L1))
           \<and> chain_intact ch t'
           \<and> (\<forall>tid' L'. snd (verify_thread ch tid' L') = L')
           \<and> (\<forall>tid' L' u. threads L' tid' = Some u \<longrightarrow>
                 (fst (verify_thread ch tid' L') = Inr Valid) = chain_intact ch u)"
proof -
  let ?t = "\<lparr>thread_id = next_id L, origin_type = ot, origin_identity = oi, intent = it,
             constraints = cs, thread_state = Open, outcome_of = None, hops = [],
             head_hash = genesis_hash ch, created_at = clock, closed_at = None\<rparr>"
  let ?L1 = "L\<lparr>threads := (threads L)(next_id L \<mapsto> ?t), next_id := Suc (next_id L)\<rparr>"
  have c: "create_thread ch ot oi it cs clock L = (Inr ?t, ?L1)"
    using assms by (simp add: create_thread_def Let_def)
  have l: "threads ?L1 (next_id L) = Some ?t" by simp
  have o: "thread_state ?t = Open" by simp
  have v: "verify ch ?t = Valid" by (simp add: verify_def)
  from add_hops_valid [OF l o v, of rs] obtain t' where
    t': "threads (snd (add_hops ch (next_id L) rs ?L1)) (next_id L) = Some t'"
    "verify ch t' = Valid" "map request_of (hops t') = rs"
    "list_all (\<lambda>r. \<not> isl r) (fst (add_hops ch (next_id L) rs ?L1))"
    by auto
  have i: "chain_intact ch t'"
    using t'(2) by (simp add: verify_intact)
  have ro: "\<forall>tid' L'. snd (verify_thread ch tid' L') = L'"
    by (simp add: verify_thread_def split: option.splits)
  have ch: "\<forall>tid' L' u. threads L' tid' = Some u \<longrightarrow>
              (fst (verify_thread ch tid' L') = Inr Valid) = chain_intact ch u"
    by (simp add: verify_thread_def verify_intact)
  show ?thesis
    using c t' i ro ch by (simp add: verify_thread_def)
qed

text \<open>
  Two instances on the toy chain: a thread created on the empty ledger gets id 0, and
  after two hops it verifies; a thread whose hop carries a forged hash does not.
\<close>

theorem fresh_thread_verifies_witness:
  "fst (verify_thread toy_chain 0
     (snd (add_hops toy_chain 0
        [(''a1'', ''llm'', ''summarize'', [''read''], 5), (''a2'', ''llm'', ''email'', [], 6)]
        (snd (create_thread toy_chain ''human'' ''alice'' ''summarize the document'' [] 1
           empty_ledger))))) = Inr Valid
   \<and> fst (verify_thread toy_chain 0 forged_ledger) \<noteq> Inr Valid"
proof -
  let ?rs = "[(''a1'', ''llm'', ''summarize'', [''read''], 5::nat), (''a2'', ''llm'', ''email'', [], 6)]"
  have h: "''human'' \<noteq> []" "''alice'' \<noteq> []" "''summarize the document'' \<noteq> []"
    by simp_all
  from fresh_thread_verifies [OF h, of toy_chain "[]" 1 empty_ledger ?rs]
  obtain t L1 where
    c: "create_thread toy_chain ''human'' ''alice'' ''summarize the document'' [] 1 empty_ledger
          = (Inr t, L1)"
    and v: "verify_thread toy_chain (thread_id t) (snd (add_hops toy_chain (thread_id t) ?rs L1)) =
          (Inr Valid, snd (add_hops toy_chain (thread_id t) ?rs L1))"
    and r: "\<forall>tid' L' u. threads L' tid' = Some u \<longrightarrow>
          (fst (verify_thread toy_chain tid' L') = Inr Valid) = chain_intact toy_chain u"
    by blast
  have i: "thread_id t = 0"
    using c by (auto simp: create_thread_def empty_ledger_def Let_def)
  have L: "snd (create_thread toy_chain ''human'' ''alice'' ''summarize the document'' [] 1
             empty_ledger) = L1"
    using c by simp
  have 1: "fst (verify_thread toy_chain 0 (snd (add_hops toy_chain 0 ?rs
             (snd (create_thread toy_chain ''human'' ''alice'' ''summarize the document'' [] 1
                empty_ledger))))) = Inr Valid"
    using v by (simp only: i L fst_conv)
  have f: "threads forged_ledger 0 = Some forged_thread"
    by (simp add: forged_ledger_def)
  have n: "\<not> chain_intact toy_chain forged_thread"
    by (simp add: chain_intact_def link_intact_def forged_thread_def toy_chain_def)
  have 2: "fst (verify_thread toy_chain 0 forged_ledger) \<noteq> Inr Valid"
    using r f n by blast
  show ?thesis
    using 1 2 by blast
qed

end
